theory Spec2Isabelle
  imports Main
begin

section \<open>Outlook Draft Creator: a shallow embedding of main.py\<close>

text \<open>
  The program reads a contact list, renders a subject and a body per contact, optionally
  asks a generative service for one more sentence, posts a draft to the mail API and
  appends one row per submitted contact to a CSV log.

  Everything outside the program (the network, the identity library, the templating
  engine, the environment) is a parameter of the model: a function or a value whose
  results the program receives. Everything the program does to the outside (requests
  issued, lines printed, rows written, pauses taken) is recorded in an explicit
  \<open>world\<close> that every operation takes and returns. An exception is a value: an
  operation returns \<open>Inl e\<close> when the Python raises \<open>e\<close> to its caller and
  \<open>Inr v\<close> when it returns \<open>v\<close>, together with the world as it is at that moment.
  Only subclasses of \<open>Exception\<close> are modelled, which are those a clause
  \<open>except Exception\<close> catches. The console takes every line printed to it.
\<close>

subsection \<open>Python values\<close>

text \<open>
  A Python string is a \<open>string\<close>; one \<open>char\<close> stands for one character of the
  Python string, so \<open>length\<close> is Python's \<open>len\<close>. The strings of the model are
  those over the characters below 256.

  \<open>pyval\<close> is a value as \<open>response.json()\<close> produces it and as \<open>csv.writer\<close>
  receives it. \<open>PDict\<close> holds the entries of a dict, one per key. A number is an
  integer: the program never looks inside a number.
\<close>

datatype pyval =
    PNone
  | PBool bool
  | PInt int
  | PStr string
  | PList "pyval list"
  | PDict "(string \<times> pyval) list"

datatype exn =
    KeyError string
  | IndexError
  | TypeError
  | AttributeError
  | ValueError
  | OverflowError
  | FileNotFoundError
  | OSError string
  | JSONDecodeError
  | LibraryError string

text \<open>\<open>d[k]\<close> for a string key \<open>k\<close>: only a dict can be subscripted by a string.\<close>

fun getitem_key :: "pyval \<Rightarrow> string \<Rightarrow> exn + pyval" where
  "getitem_key (PDict kvs) k = (case map_of kvs k of None \<Rightarrow> Inl (KeyError k) | Some v \<Rightarrow> Inr v)"
| "getitem_key _ k = Inl TypeError"

text \<open>\<open>x[0]\<close>: the first element of a list, the first character of a string; a dict
  parsed from JSON has string keys only, so the key \<open>0\<close> is missing.\<close>

fun getitem_0 :: "pyval \<Rightarrow> exn + pyval" where
  "getitem_0 (PList []) = Inl IndexError"
| "getitem_0 (PList (x # xs)) = Inr x"
| "getitem_0 (PStr []) = Inl IndexError"
| "getitem_0 (PStr (c # cs)) = Inr (PStr [c])"
| "getitem_0 (PDict kvs) = Inl (KeyError ''0'')"
| "getitem_0 _ = Inl TypeError"

text \<open>\<open>result.get(k, default)\<close>: a method of dicts only.\<close>

fun get_method :: "pyval \<Rightarrow> string \<Rightarrow> pyval \<Rightarrow> exn + pyval" where
  "get_method (PDict kvs) k d = Inr (case map_of kvs k of None \<Rightarrow> d | Some v \<Rightarrow> v)"
| "get_method _ k d = Inl AttributeError"

fun is_dict :: "pyval \<Rightarrow> bool" where
  "is_dict (PDict kvs) = True"
| "is_dict _ = False"

text \<open>\<open>str.isspace\<close> on the characters below 256: tab, line feed, vertical tab, form
  feed, carriage return, the four separators 28 to 31, space, next line (133) and
  no-break space (160).\<close>

definition isspace :: "char \<Rightarrow> bool" where
  "isspace c = (of_char c \<in> {9, 10, 11, 12, 13, 28, 29, 30, 31, 32, 133, 160 :: nat})"

definition strip :: "string \<Rightarrow> string" where
  "strip s = rev (dropWhile isspace (rev (dropWhile isspace s)))"

fun strip_method :: "pyval \<Rightarrow> exn + string" where
  "strip_method (PStr s) = Inr (strip s)"
| "strip_method _ = Inl AttributeError"

subsection \<open>Constants\<close>

definition nl :: char where
  "nl = CHR 0x0A"

definition SUBJECT_TEXT :: string where
  "SUBJECT_TEXT = ''PASTE YOUR SUBJECT HERE (you may include {{placeholders}})''"

definition BODY_TEXT :: string where
  "BODY_TEXT = ''PASTE YOUR BODY HERE EXACTLY.'' @ [nl] @
     ''You may reference Excel fields like {{first_name}}, {{company}}, {{role}}, {{observation}}.'' @ [nl] @
     ''If you don'' @ [CHR 0x27] @ ''t want placeholders, leave plain text.'' @ [nl]"

definition SCOPES :: "string list" where
  "SCOPES = [''Mail.ReadWrite'', ''offline_access'']"

definition GRAPH_ENDPOINT :: string where
  "GRAPH_ENDPOINT = ''https://graph.microsoft.com/v1.0''"

definition OPENAI_ENDPOINT :: string where
  "OPENAI_ENDPOINT = ''https://api.openai.com/v1/chat/completions''"

subsection \<open>The outside world\<close>

record request =
  url :: string
  headers :: "(string \<times> string) list"
  payload :: pyval
  timeout :: "int option"

text \<open>A response: its status code, its text, and what \<open>response.json()\<close> returns
  (\<open>None\<close> when the text is not JSON and the call raises).\<close>

record response =
  status_code :: int
  response_text :: string
  json :: "pyval option"

text \<open>The three texts an error result carries: the literal \<open>No access token\<close>, the
  text \<open>HTTP {status_code}: {text}\<close>, and \<open>str(e)\<close> of a caught exception.\<close>

datatype error_detail =
    NoAccessToken
  | Http int string
  | ExceptionText exn

text \<open>What the program prints, one constructor per \<open>print\<close> of the source, carrying
  the values the message interpolates.\<close>

datatype notice =
    FailedToCreateDeviceFlow
  | ToSignIn string
  | EnterTheCode string
  | AuthenticationFailed string
  | AIPersonalizationFailed exn
  | TemplateRenderingError exn
  | NoEmailSkipping int
  | CreatingDraftFor string
  | DraftCreated pyval
  | DraftCreationFailed error_detail
  | Waiting int
  | ProcessingComplete string
  | ExcelNotFound string
  | LoadedContacts nat
  | ErrorReadingExcel exn
  | AuthenticationFailedExiting
  | AuthenticationSuccessful

datatype msal_call =
    GetAccounts
  | AcquireTokenSilent "string list" string
  | InitiateDeviceFlow "string list"
  | AcquireTokenByDeviceFlow
  | Serialize

record world =
  console :: "notice list"
  http_log :: "request list"
  msal_log :: "msal_call list"
  sleeps :: "int list"
  files :: "string \<rightharpoonup> pyval list list"
  token_cache_file :: "string option"

text \<open>
  The environment: the value of \<open>OPENAI_API_KEY\<close>, the network (the reply to a request,
  which may depend on how many requests were issued before it), the templating engine
  (\<open>Template(text).render(**row)\<close>, which raises or returns the rendered text), the
  identity library, and the file system (the exception that opening a path for appending
  raises there, if any: a missing directory, a directory in place of the file, a missing
  permission).
\<close>

type_synonym dict = "(string \<times> string) list"

record env =
  openai_api_key :: "string option"
  net :: "nat \<Rightarrow> request \<Rightarrow> exn + response"
  jinja :: "string \<Rightarrow> (string \<rightharpoonup> string) \<Rightarrow> exn + string"
  get_accounts :: "string list"
  acquire_token_silent :: "string \<Rightarrow> dict option"
  initiate_device_flow :: dict
  acquire_token_by_device_flow :: "dict \<Rightarrow> dict"
  serialize :: string
  open_error :: "string \<Rightarrow> exn option"

definition print :: "notice \<Rightarrow> world \<Rightarrow> world" where
  "print n w = w\<lparr>console := console w @ [n]\<rparr>"

text \<open>\<open>requests.post\<close>: the request is issued, then the network replies or the call
  raises.\<close>

definition post :: "env \<Rightarrow> request \<Rightarrow> world \<Rightarrow> (exn + response) \<times> world" where
  "post e r w = (net e (length (http_log w)) r, w\<lparr>http_log := http_log w @ [r]\<rparr>)"

text \<open>
  \<open>args.delay_ms / 1000.0\<close> converts the integer to a float first, and the conversion
  raises \<open>OverflowError\<close> for an integer that rounds to \<open>2 ^ 1024\<close> or beyond. The
  model keeps the length of a pause in milliseconds and leaves the rounding of the float
  aside.
\<close>

definition float_overflow :: int where
  "float_overflow = 2 ^ 1024 - 2 ^ 970"

definition delay_seconds :: "int \<Rightarrow> exn + int" where
  "delay_seconds ms = (if \<bar>ms\<bar> \<ge> float_overflow then Inl OverflowError else Inr ms)"

text \<open>\<open>time.sleep\<close> raises \<open>ValueError\<close> on a negative length, and
  \<open>OverflowError\<close> on a length whose nanoseconds do not fit a signed 64-bit integer.\<close>

definition max_sleep_ms :: int where
  "max_sleep_ms = (2 ^ 63 - 1) div 1000000"

definition sleep :: "int \<Rightarrow> world \<Rightarrow> (exn + unit) \<times> world" where
  "sleep ms w =
     (if ms < 0 then (Inl ValueError, w)
      else if ms > max_sleep_ms then (Inl OverflowError, w)
      else (Inr (), w\<lparr>sleeps := sleeps w @ [ms]\<rparr>))"

subsection \<open>The draft creator\<close>

record creator =
  client_id :: string
  from_name :: string
  from_email :: string
  access_token :: "string option"

definition save_token_cache :: "env \<Rightarrow> world \<Rightarrow> world" where
  "save_token_cache e w =
     w\<lparr>msal_log := msal_log w @ [Serialize], token_cache_file := Some (serialize e)\<rparr>"

definition msal :: "msal_call \<Rightarrow> world \<Rightarrow> world" where
  "msal c w = w\<lparr>msal_log := msal_log w @ [c]\<rparr>"

text \<open>The second half of \<open>authenticate\<close>: the device code flow.\<close>

definition device_code_flow :: "env \<Rightarrow> creator \<Rightarrow> world \<Rightarrow> (exn + bool) \<times> creator \<times> world" where
  "device_code_flow e c w =
     (let flow = initiate_device_flow e;
          w1 = msal (InitiateDeviceFlow SCOPES) w
      in case map_of flow ''user_code'' of
           None \<Rightarrow> (Inr False, c, print FailedToCreateDeviceFlow w1)
         | Some code \<Rightarrow>
             (case map_of flow ''verification_uri'' of
                 None \<Rightarrow> (Inl (KeyError ''verification_uri''), c, w1)
               | Some uri \<Rightarrow>
                   (let w2 = print (ToSignIn uri) w1;
                        w3 = print (EnterTheCode code) w2;
                        result = acquire_token_by_device_flow e flow;
                        w4 = msal AcquireTokenByDeviceFlow w3
                    in (case map_of result ''access_token'' of
                          Some t \<Rightarrow> (Inr True, c\<lparr>access_token := Some t\<rparr>, save_token_cache e w4)
                        | None \<Rightarrow>
                            (Inr False, c,
                             print (AuthenticationFailed
                               (case map_of result ''error_description'' of
                                  None \<Rightarrow> ''Unknown error'' | Some d \<Rightarrow> d)) w4)))))"

definition authenticate :: "env \<Rightarrow> creator \<Rightarrow> world \<Rightarrow> (exn + bool) \<times> creator \<times> world" where
  "authenticate e c w =
     (let accounts = get_accounts e;
          w1 = msal GetAccounts w
      in (case accounts of
            [] \<Rightarrow> device_code_flow e c w1
          | a # _ \<Rightarrow>
              (let result = acquire_token_silent e a;
                   w2 = msal (AcquireTokenSilent SCOPES a) w1
               in (case result of
                     None \<Rightarrow> device_code_flow e c w2
                   | Some [] \<Rightarrow> device_code_flow e c w2
                   | Some d \<Rightarrow>
                       (case map_of d ''access_token'' of
                          None \<Rightarrow> (Inl (KeyError ''access_token''), c, w2)
                        | Some t \<Rightarrow> (Inr True, c\<lparr>access_token := Some t\<rparr>, save_token_cache e w2))))))"

text \<open>The result of \<open>create_draft\<close> is a dict of one of two shapes, told apart by its
  \<open>status\<close>: \<open>{status: success, draft_id, error: None}\<close> and \<open>{status: error, error}\<close>.\<close>

datatype submission =
    Success pyval
  | Failure error_detail

fun status :: "submission \<Rightarrow> string" where
  "status (Success v) = ''success''"
| "status (Failure d) = ''error''"

text \<open>\<open>result.get('draft_id', default)\<close>\<close>

fun get_draft_id :: "submission \<Rightarrow> pyval \<Rightarrow> pyval" where
  "get_draft_id (Success v) d = v"
| "get_draft_id (Failure x) d = d"

definition draft_request :: "string \<Rightarrow> string \<Rightarrow> string \<Rightarrow> string \<Rightarrow> request" where
  "draft_request token email subject body =
     \<lparr>url = GRAPH_ENDPOINT @ ''/me/messages'',
      headers = [(''Authorization'', ''Bearer '' @ token), (''Content-Type'', ''application/json'')],
      payload = PDict
        [(''subject'', PStr subject),
         (''body'', PDict [(''contentType'', PStr ''Text''), (''content'', PStr body)]),
         (''toRecipients'',
            PList [PDict [(''emailAddress'', PDict [(''address'', PStr email)])]])],
      timeout = None\<rparr>"

text \<open>The body of the \<open>try\<close> of \<open>create_draft\<close>.\<close>

definition create_draft_try :: "env \<Rightarrow> request \<Rightarrow> world \<Rightarrow> (exn + submission) \<times> world" where
  "create_draft_try e r w =
     (case post e r w of
        (Inl x, w1) \<Rightarrow> (Inl x, w1)
      | (Inr resp, w1) \<Rightarrow>
          if status_code resp = 201
          then (case json resp of
                  None \<Rightarrow> (Inl JSONDecodeError, w1)
                | Some result \<Rightarrow>
                    (case get_method result ''id'' (PStr ''unknown'') of
                       Inl x \<Rightarrow> (Inl x, w1)
                     | Inr v \<Rightarrow> (Inr (Success v), w1)))
          else (Inr (Failure (Http (status_code resp) (response_text resp))), w1))"

definition create_draft ::
  "env \<Rightarrow> creator \<Rightarrow> string \<Rightarrow> string \<Rightarrow> string \<Rightarrow> world \<Rightarrow> (exn + submission) \<times> world" where
  "create_draft e c email subject body w =
     (case access_token c of
        None \<Rightarrow> (Inr (Failure NoAccessToken), w)
      | Some token \<Rightarrow>
          if token = [] then (Inr (Failure NoAccessToken), w)
          else (case create_draft_try e (draft_request token email subject body) w of
                  (Inl x, w1) \<Rightarrow> (Inr (Failure (ExceptionText x)), w1)
                | (Inr s, w1) \<Rightarrow> (Inr s, w1)))"

subsection \<open>Personalization\<close>

text \<open>\<open>row_data.get(k, '')\<close>\<close>

definition get_or_empty :: "(string \<rightharpoonup> string) \<Rightarrow> string \<Rightarrow> string" where
  "get_or_empty row k = (case row k of None \<Rightarrow> [] | Some v \<Rightarrow> v)"

definition indent :: string where
  "indent = ''        ''"

definition prompt :: "(string \<rightharpoonup> string) \<Rightarrow> string" where
  "prompt row_data =
     ''Based on this contact info, write a brief, personalized sentence (max 35 words) to add to a cold email:''
       @ [nl] @
     indent @ ''Name: '' @ get_or_empty row_data ''first_name'' @ '' '' @ get_or_empty row_data ''last_name''
       @ [nl] @
     indent @ ''Company: '' @ get_or_empty row_data ''company'' @ [nl] @
     indent @ ''Role: '' @ get_or_empty row_data ''role'' @ [nl] @
     indent @ ''Observation: '' @ get_or_empty row_data ''observation'' @ [nl] @
     indent @ [nl] @
     indent @ ''Write a natural, genuine-sounding personalization:''"

definition chat_request :: "string \<Rightarrow> string \<Rightarrow> request" where
  "chat_request key p =
     \<lparr>url = OPENAI_ENDPOINT,
      headers = [(''Authorization'', ''Bearer '' @ key), (''Content-Type'', ''application/json'')],
      payload = PDict
        [(''model'', PStr ''gpt-3.5-turbo''),
         (''messages'', PList [PDict [(''role'', PStr ''user''), (''content'', PStr p)]]),
         (''max_tokens'', PInt 50)],
      timeout = Some 10\<rparr>"

text \<open>\<open>result["choices"][0]["message"]["content"].strip()\<close>\<close>

definition completion_text :: "pyval \<Rightarrow> exn + string" where
  "completion_text result =
     (case getitem_key result ''choices'' of
        Inl x \<Rightarrow> Inl x
      | Inr choices \<Rightarrow>
          (case getitem_0 choices of
             Inl x \<Rightarrow> Inl x
           | Inr choice \<Rightarrow>
               (case getitem_key choice ''message'' of
                  Inl x \<Rightarrow> Inl x
                | Inr message \<Rightarrow>
                    (case getitem_key message ''content'' of
                       Inl x \<Rightarrow> Inl x
                     | Inr content \<Rightarrow> strip_method content))))"

definition shorten :: "string \<Rightarrow> string" where
  "shorten personalization =
     (if length personalization > 200 then take 197 personalization @ ''...''
      else personalization)"

text \<open>The body of the \<open>try\<close> of \<open>personalize_with_ai\<close>: \<open>Inr (Some s)\<close> when it
  returns \<open>s\<close>, \<open>Inr None\<close> when it falls through to the code after the \<open>try\<close>.\<close>

definition personalize_try :: "env \<Rightarrow> request \<Rightarrow> world \<Rightarrow> (exn + string option) \<times> world" where
  "personalize_try e r w =
     (case post e r w of
        (Inl x, w1) \<Rightarrow> (Inl x, w1)
      | (Inr resp, w1) \<Rightarrow>
          if status_code resp = 200
          then (case json resp of
                  None \<Rightarrow> (Inl JSONDecodeError, w1)
                | Some result \<Rightarrow>
                    (case completion_text result of
                       Inl x \<Rightarrow> (Inl x, w1)
                     | Inr personalization \<Rightarrow>
                         (Inr (Some ([nl, nl] @ shorten personalization)), w1)))
          else (Inr None, w1))"

definition personalize_with_ai ::
  "env \<Rightarrow> (string \<rightharpoonup> string) \<Rightarrow> world \<Rightarrow> (exn + string) \<times> world" where
  "personalize_with_ai e row_data w =
     (case openai_api_key e of
        None \<Rightarrow> (Inr [], w)
      | Some key \<Rightarrow>
          if key = [] then (Inr [], w)
          else (case personalize_try e (chat_request key (prompt row_data)) w of
                  (Inl x, w1) \<Rightarrow> (Inr [], print (AIPersonalizationFailed x) w1)
                | (Inr (Some s), w1) \<Rightarrow> (Inr s, w1)
                | (Inr None, w1) \<Rightarrow> (Inr [], w1)))"

subsection \<open>Rendering and logging\<close>

definition render_template ::
  "env \<Rightarrow> string \<Rightarrow> (string \<rightharpoonup> string) \<Rightarrow> world \<Rightarrow> (exn + string) \<times> world" where
  "render_template e template_text row_data w =
     (case jinja e template_text row_data of
        Inr rendered \<Rightarrow> (Inr rendered, w)
      | Inl x \<Rightarrow> (Inr template_text, print (TemplateRenderingError x) w))"

text \<open>
  \<open>open(csv_file, 'a')\<close> raises for the empty path, and wherever the file system
  refuses the path. A file opened for appending is created when it does not exist.
\<close>

definition open_append :: "env \<Rightarrow> string \<Rightarrow> exn option" where
  "open_append e csv_file = (if csv_file = [] then Some FileNotFoundError else open_error e csv_file)"

text \<open>A row of the log is the list the source hands to \<open>writerow\<close>. When the file
  cannot be opened nothing is written and the exception goes to the caller.\<close>

definition log_result ::
  "env \<Rightarrow> string \<Rightarrow> string \<Rightarrow> string \<Rightarrow> string \<Rightarrow> string \<Rightarrow> pyval \<Rightarrow> string \<Rightarrow> world
     \<Rightarrow> (exn + unit) \<times> world" where
  "log_result e csv_file email company first_name subject draft_id st w =
     (let file_exists = (files w csv_file \<noteq> None) in
      case open_append e csv_file of
        Some x \<Rightarrow> (Inl x, w)
      | None \<Rightarrow>
          (let rows = (case files w csv_file of None \<Rightarrow> [] | Some rows \<Rightarrow> rows);
               rows1 = (if \<not> file_exists
                        then rows @ [[PStr ''email'', PStr ''company'', PStr ''first_name'',
                                      PStr ''subject'', PStr ''draft_id'', PStr ''status'']]
                        else rows)
           in (Inr (), w\<lparr>files := (files w)(csv_file \<mapsto>
                 rows1 @ [[PStr email, PStr company, PStr first_name, PStr subject, draft_id,
                           PStr st]])\<rparr>)))"

subsection \<open>The batch\<close>

text \<open>A cell of the sheet is a text or missing (\<open>NaN\<close>): the source declares the
  fields it passes on as \<open>str\<close>. A row is a dict from column names to cells.\<close>

datatype cell = NaN | Str string

text \<open>The clean-up loop of \<open>main\<close>: a missing value becomes the empty string.\<close>

definition clean :: "(string \<rightharpoonup> cell) \<Rightarrow> (string \<rightharpoonup> string)" where
  "clean row = (\<lambda>key. case row key of None \<Rightarrow> None | Some NaN \<Rightarrow> Some [] | Some (Str s) \<Rightarrow> Some s)"

record args =
  excel :: string
  sheet :: string
  arg_from_name :: string
  arg_from_email :: string
  delay_ms :: int
  log_csv :: string
  ai_personalize :: bool
  arg_client_id :: string

text \<open>Sequencing: an exception of the first operation ends the second before it starts.\<close>

definition bind ::
  "(exn + 'a) \<times> world \<Rightarrow> ('a \<Rightarrow> world \<Rightarrow> (exn + 'b) \<times> world) \<Rightarrow> (exn + 'b) \<times> world" where
  "bind m f = (case m of (Inl x, w) \<Rightarrow> (Inl x, w) | (Inr v, w) \<Rightarrow> f v w)"

text \<open>The rate limiting at the end of the loop body: no pause after the last row.\<close>

definition rate_limit :: "args \<Rightarrow> nat \<Rightarrow> nat \<Rightarrow> world \<Rightarrow> (exn + unit) \<times> world" where
  "rate_limit a n index w =
     (if int index < int n - 1
      then (case delay_seconds (delay_ms a) of
              Inl x \<Rightarrow> (Inl x, w)
            | Inr s \<Rightarrow> sleep s (print (Waiting s) w))
      else (Inr (), w))"

text \<open>The part of the loop body after the email check: submit, log, report, pause.\<close>

definition submit_and_log ::
  "env \<Rightarrow> args \<Rightarrow> creator \<Rightarrow> nat \<Rightarrow> nat \<Rightarrow> (string \<rightharpoonup> string) \<Rightarrow> string \<Rightarrow> string \<Rightarrow> string
     \<Rightarrow> world \<Rightarrow> (exn + unit) \<times> world" where
  "submit_and_log e a c n index row_data email subject body w =
     bind (create_draft e c email subject body (print (CreatingDraftFor email) w))
       (\<lambda>result w1.
     bind (log_result e (log_csv a) email
             (get_or_empty row_data ''company'')
             (get_or_empty row_data ''first_name'')
             subject
             (get_draft_id result (PStr []))
             (status result) w1)
       (\<lambda>u w2.
          rate_limit a n index
            (case result of
               Success draft_id \<Rightarrow> print (DraftCreated draft_id) w2
             | Failure d \<Rightarrow> print (DraftCreationFailed d) w2)))"

text \<open>The body of the loop of \<open>main\<close> for the row at position \<open>index\<close> of \<open>n\<close> rows.\<close>

definition process_contact ::
  "env \<Rightarrow> args \<Rightarrow> creator \<Rightarrow> nat \<Rightarrow> nat \<Rightarrow> (string \<rightharpoonup> cell) \<Rightarrow> world \<Rightarrow> (exn + unit) \<times> world" where
  "process_contact e a c n index row w =
     (let row_data = clean row in
      bind (render_template e SUBJECT_TEXT row_data w) (\<lambda>subject w1.
      bind (render_template e BODY_TEXT row_data w1) (\<lambda>body w2.
      bind (if ai_personalize a
            then bind (personalize_with_ai e row_data w2)
                   (\<lambda>personalization w3.
                      (Inr (if personalization \<noteq> [] then body @ personalization else body), w3))
            else (Inr body, w2)) (\<lambda>body w3.
      let email = get_or_empty row_data ''email'' in
      if email = [] then (Inr (), print (NoEmailSkipping (int index + 1)) w3)
      else submit_and_log e a c n index row_data email subject body w3))))"

fun process_rows ::
  "env \<Rightarrow> args \<Rightarrow> creator \<Rightarrow> nat \<Rightarrow> nat \<Rightarrow> (string \<rightharpoonup> cell) list \<Rightarrow> world \<Rightarrow> (exn + unit) \<times> world" where
  "process_rows e a c n index [] w = (Inr (), w)"
| "process_rows e a c n index (row # rest) w =
     (case process_contact e a c n index row w of
        (Inl x, w1) \<Rightarrow> (Inl x, w1)
      | (Inr u, w1) \<Rightarrow> process_rows e a c n (Suc index) rest w1)"

text \<open>\<open>main\<close> from the reading of the sheet on. \<open>sheet_data\<close> is what the reader
  finds: \<open>None\<close> when the file does not exist, an exception when reading fails, the rows
  otherwise.\<close>

definition main ::
  "env \<Rightarrow> args \<Rightarrow> (exn + (string \<rightharpoonup> cell) list) option \<Rightarrow> world \<Rightarrow> (exn + unit) \<times> world" where
  "main e a sheet_data w =
     (case sheet_data of
        None \<Rightarrow> (Inr (), print (ExcelNotFound (excel a)) w)
      | Some (Inl x) \<Rightarrow> (Inr (), print (ErrorReadingExcel x) w)
      | Some (Inr df) \<Rightarrow>
          (let w1 = print (LoadedContacts (length df)) w;
               c = \<lparr>client_id = arg_client_id a, from_name = arg_from_name a,
                    from_email = arg_from_email a, access_token = None\<rparr>
           in (case authenticate e c w1 of
                 (Inl x, c1, w2) \<Rightarrow> (Inl x, w2)
               | (Inr False, c1, w2) \<Rightarrow> (Inr (), print AuthenticationFailedExiting w2)
               | (Inr True, c1, w2) \<Rightarrow>
                   bind (process_rows e a c1 (length df) 0 df (print AuthenticationSuccessful w2))
                     (\<lambda>u w3. (Inr (), print (ProcessingComplete (log_csv a)) w3)))))"

subsection \<open>Observations of the world\<close>

text \<open>The requests that submit a draft, the skip notices on the console, and the rows a
  log file holds once it is open for appending (the header row when the file is new).\<close>

definition is_draft_request :: "request \<Rightarrow> bool" where
  "is_draft_request r = (url r = GRAPH_ENDPOINT @ ''/me/messages'')"

definition draft_requests :: "world \<Rightarrow> request list" where
  "draft_requests w = filter is_draft_request (http_log w)"

fun is_skip_notice :: "notice \<Rightarrow> bool" where
  "is_skip_notice (NoEmailSkipping i) = True"
| "is_skip_notice _ = False"

definition skip_notices :: "world \<Rightarrow> notice list" where
  "skip_notices w = filter is_skip_notice (console w)"

definition log_base :: "world \<Rightarrow> string \<Rightarrow> pyval list list" where
  "log_base w csv_file =
     (case files w csv_file of
        None \<Rightarrow> [[PStr ''email'', PStr ''company'', PStr ''first_name'', PStr ''subject'',
                  PStr ''draft_id'', PStr ''status'']]
      | Some rows \<Rightarrow> rows)"

subsection \<open>Example inputs\<close>

text \<open>A mail API that accepts every draft, one that answers 429, one that cannot be
  reached; a generative service that answers 500; a template the engine rejects.\<close>

definition created :: response where
  "created = \<lparr>status_code = 201, response_text = [],
      json = Some (PDict [(''id'', PStr ''AAMk-example'')])\<rparr>"

definition env_ok :: env where
  "env_ok = \<lparr>openai_api_key = None,
      net = (\<lambda>k r. Inr created),
      jinja = (\<lambda>t r. Inr t),
      get_accounts = [''user@example.com''],
      acquire_token_silent = (\<lambda>a. Some [(''access_token'', ''token'')]),
      initiate_device_flow = [],
      acquire_token_by_device_flow = (\<lambda>f. []),
      serialize = ''cache'',
      open_error = (\<lambda>p. None)\<rparr>"

definition too_many :: response where
  "too_many = \<lparr>status_code = 429, response_text = ''Too Many Requests'', json = None\<rparr>"

definition env_429 :: env where
  "env_429 = env_ok\<lparr>net := (\<lambda>k r. Inr too_many)\<rparr>"

definition env_down :: env where
  "env_down = env_ok\<lparr>net := (\<lambda>k r. Inl (LibraryError ''Connection refused''))\<rparr>"

definition env_no_id :: env where
  "env_no_id = env_ok\<lparr>net := (\<lambda>k r. Inr (created\<lparr>json := Some (PDict [])\<rparr>))\<rparr>"

definition not_an_object :: response where
  "not_an_object = \<lparr>status_code = 201, response_text = ''[]'', json = Some (PList [])\<rparr>"

definition env_201_list :: env where
  "env_201_list = env_ok\<lparr>net := (\<lambda>k r. Inr not_an_object)\<rparr>"

definition created_not_json :: response where
  "created_not_json = \<lparr>status_code = 201, response_text = ''Created'', json = None\<rparr>"

definition env_201_not_json :: env where
  "env_201_not_json = env_ok\<lparr>net := (\<lambda>k r. Inr created_not_json)\<rparr>"


definition world0 :: world where
  "world0 = \<lparr>console = [], http_log = [], msal_log = [], sleeps = [], files = Map.empty,
      token_cache_file = None\<rparr>"

definition args0 :: args where
  "args0 = \<lparr>excel = ''contacts.xlsx'', sheet = ''Sheet1'', arg_from_name = ''Ann'',
      arg_from_email = ''ann@example.com'', delay_ms = 1000, log_csv = ''log.csv'',
      ai_personalize = False, arg_client_id = ''client''\<rparr>"

definition creator0 :: creator where
  "creator0 = \<lparr>client_id = ''client'', from_name = ''Ann'', from_email = ''ann@example.com'',
      access_token = Some ''token''\<rparr>"

definition row_bob :: "string \<rightharpoonup> cell" where
  "row_bob = [''email'' \<mapsto> Str ''bob@example.com'', ''first_name'' \<mapsto> Str ''Bob'',
      ''company'' \<mapsto> NaN]"



text \<open>A generative service that answers 500, one that times out, one whose answer is
  not JSON, one whose JSON lacks \<open>choices\<close>, and one that answers with a completion.\<close>

definition server_error :: response where
  "server_error = \<lparr>status_code = 500, response_text = ''Internal Server Error'', json = None\<rparr>"

definition env_ai_500 :: env where
  "env_ai_500 = env_ok\<lparr>openai_api_key := Some ''sk-test'', net := (\<lambda>k r. Inr server_error)\<rparr>"

definition env_ai_timeout :: env where
  "env_ai_timeout = env_ok\<lparr>openai_api_key := Some ''sk-test'',
      net := (\<lambda>k r. Inl (LibraryError ''Read timed out''))\<rparr>"

definition not_json :: response where
  "not_json = \<lparr>status_code = 200, response_text = ''<html>'', json = None\<rparr>"

definition env_ai_not_json :: env where
  "env_ai_not_json = env_ok\<lparr>openai_api_key := Some ''sk-test'', net := (\<lambda>k r. Inr not_json)\<rparr>"

definition no_choices :: response where
  "no_choices = \<lparr>status_code = 200, response_text = ''{}'', json = Some (PDict [])\<rparr>"

definition env_ai_no_choices :: env where
  "env_ai_no_choices = env_ok\<lparr>openai_api_key := Some ''sk-test'', net := (\<lambda>k r. Inr no_choices)\<rparr>"

definition completion :: "string \<Rightarrow> response" where
  "completion c = \<lparr>status_code = 200, response_text = [],
      json = Some (PDict [(''choices'',
        PList [PDict [(''message'', PDict [(''role'', PStr ''assistant''), (''content'', PStr c)])]])])\<rparr>"

definition env_ai :: "string \<Rightarrow> env" where
  "env_ai c = env_ok\<lparr>openai_api_key := Some ''sk-test'', net := (\<lambda>k r. Inr (completion c))\<rparr>"

section \<open>Properties\<close>

subsection \<open>What each operation leaves unchanged\<close>

lemma print_frame [simp]:
  "http_log (print n w) = http_log w" "files (print n w) = files w"
  "sleeps (print n w) = sleeps w" "msal_log (print n w) = msal_log w"
  "token_cache_file (print n w) = token_cache_file w"
  "console (print n w) = console w @ [n]"
  by (simp_all add: print_def)

lemma render_template_frame:
  "\<exists>s w'. render_template e t r w = (Inr s, w') \<and> files w' = files w \<and> sleeps w' = sleeps w
      \<and> http_log w' = http_log w \<and> skip_notices w' = skip_notices w"
  by (simp add: render_template_def skip_notices_def split: sum.splits)

lemma post_frame:
  "post e r w = (x, w') \<Longrightarrow> files w' = files w \<and> sleeps w' = sleeps w
      \<and> http_log w' = http_log w @ [r] \<and> console w' = console w"
  by (auto simp: post_def)

lemma chat_not_draft: "\<not> is_draft_request (chat_request k p)"
  by (simp add: is_draft_request_def chat_request_def OPENAI_ENDPOINT_def GRAPH_ENDPOINT_def)

lemma personalize_try_frame:
  "personalize_try e r w = (x, w') \<Longrightarrow> files w' = files w \<and> sleeps w' = sleeps w
      \<and> http_log w' = http_log w @ [r] \<and> console w' = console w"
  by (auto simp: personalize_try_def post_def split: sum.splits if_splits option.splits)

lemma personalize_frame:
  "\<exists>s w'. personalize_with_ai e r w = (Inr s, w') \<and> files w' = files w \<and> sleeps w' = sleeps w
      \<and> draft_requests w' = draft_requests w \<and> skip_notices w' = skip_notices w"
proof (cases "openai_api_key e")
  case None
  then show ?thesis by (simp add: personalize_with_ai_def)
next
  case (Some key)
  show ?thesis
  proof (cases "key = []")
    case True
    with Some show ?thesis by (simp add: personalize_with_ai_def)
  next
    case False
    obtain x w1 where t: "personalize_try e (chat_request key (prompt r)) w = (x, w1)"
      by (cases "personalize_try e (chat_request key (prompt r)) w")
    from personalize_try_frame [OF t] Some False t show ?thesis
      by (auto simp: personalize_with_ai_def draft_requests_def skip_notices_def chat_not_draft
               split: sum.splits option.splits)
  qed
qed

lemma create_draft_try_frame:
  "create_draft_try e r w = (x, w') \<Longrightarrow> files w' = files w \<and> sleeps w' = sleeps w
      \<and> http_log w' = http_log w @ [r] \<and> console w' = console w"
  by (auto simp: create_draft_try_def post_def split: sum.splits if_splits option.splits)

lemma create_draft_frame:
  "\<exists>s w'. create_draft e c email subject body w = (Inr s, w') \<and> files w' = files w
      \<and> sleeps w' = sleeps w \<and> console w' = console w"
proof (cases "access_token c")
  case None
  then show ?thesis by (simp add: create_draft_def)
next
  case (Some token)
  show ?thesis
  proof (cases "token = []")
    case True
    with Some show ?thesis by (simp add: create_draft_def)
  next
    case False
    obtain x w1 where t: "create_draft_try e (draft_request token email subject body) w = (x, w1)"
      by (cases "create_draft_try e (draft_request token email subject body) w")
    from create_draft_try_frame [OF t] Some False t show ?thesis
      by (auto simp: create_draft_def split: sum.splits)
  qed
qed

lemma log_result_written:
  assumes "open_append e f = None"
  shows "log_result e f em co fn su d st w =
     (Inr (), w\<lparr>files := (files w)(f \<mapsto> log_base w f @ [[PStr em, PStr co, PStr fn, PStr su, d, PStr st]])\<rparr>)"
  using assms by (simp add: log_result_def log_base_def Let_def split: option.splits)

lemma log_result_refused:
  assumes "open_append e f = Some x"
  shows "log_result e f em co fn su d st w = (Inl x, w)"
  using assms by (simp add: log_result_def Let_def)


lemma sleep_limit_is_a_float: "max_sleep_ms < float_overflow"
  by (simp add: max_sleep_ms_def float_overflow_def)

lemma rate_limit_frame:
  "\<exists>x w'. rate_limit a n index w = (x, w') \<and> files w' = files w \<and> http_log w' = http_log w
      \<and> skip_notices w' = skip_notices w"
  by (simp add: rate_limit_def sleep_def skip_notices_def split: sum.splits)

lemma rate_limit_accepted:
  assumes "0 \<le> delay_ms a" and "delay_ms a \<le> max_sleep_ms"
  shows "\<exists>w'. rate_limit a n index w = (Inr (), w') \<and> files w' = files w
      \<and> skip_notices w' = skip_notices w
      \<and> sleeps w' = sleeps w @ (if int index < int n - 1 then [delay_ms a] else [])"
proof -
  from assms sleep_limit_is_a_float have "delay_seconds (delay_ms a) = Inr (delay_ms a)"
    by (simp add: delay_seconds_def)
  with assms show ?thesis
    by (simp add: rate_limit_def sleep_def skip_notices_def)
qed

text \<open>The world after the outcome of a submission is reported.\<close>

lemma report_frame:
  "files (case s of Success i \<Rightarrow> print (DraftCreated i) w | Failure d \<Rightarrow> print (DraftCreationFailed d) w)
     = files w"
  "sleeps (case s of Success i \<Rightarrow> print (DraftCreated i) w | Failure d \<Rightarrow> print (DraftCreationFailed d) w)
     = sleeps w"
  "skip_notices (case s of Success i \<Rightarrow> print (DraftCreated i) w | Failure d \<Rightarrow> print (DraftCreationFailed d) w)
     = skip_notices w"
  by (cases s; simp add: skip_notices_def)+

lemma submit_and_log_written:
  assumes cd: "create_draft e c email subject body (print (CreatingDraftFor email) w) = (Inr s, w1)"
    and op: "open_append e (log_csv a) = None"
  shows "\<exists>x w'. submit_and_log e a c n index row_data email subject body w = (x, w')
     \<and> files w' = (files w)(log_csv a \<mapsto> log_base w (log_csv a) @
          [[PStr email, PStr (get_or_empty row_data ''company''),
            PStr (get_or_empty row_data ''first_name''), PStr subject,
            get_draft_id s (PStr []), PStr (status s)]])
     \<and> skip_notices w' = skip_notices w
     \<and> (0 \<le> delay_ms a \<and> delay_ms a \<le> max_sleep_ms \<longrightarrow> x = Inr ()
          \<and> sleeps w' = sleeps w @ (if int index < int n - 1 then [delay_ms a] else []))"
proof -
  from create_draft_frame [of e c email subject body "print (CreatingDraftFor email) w"] cd
  have f1: "files w1 = files w" and s1: "sleeps w1 = sleeps w"
    and c1: "console w1 = console w @ [CreatingDraftFor email]"
    by auto
  have lb: "log_base w1 (log_csv a) = log_base w (log_csv a)"
    by (simp add: log_base_def f1)
  have n1: "skip_notices w1 = skip_notices w"
    by (simp add: skip_notices_def c1)
  define w2 where "w2 = w1\<lparr>files := (files w1)(log_csv a \<mapsto> log_base w1 (log_csv a) @
          [[PStr email, PStr (get_or_empty row_data ''company''),
            PStr (get_or_empty row_data ''first_name''), PStr subject,
            get_draft_id s (PStr []), PStr (status s)]])\<rparr>"
  define w3 where "w3 = (case s of Success i \<Rightarrow> print (DraftCreated i) w2
                          | Failure d \<Rightarrow> print (DraftCreationFailed d) w2)"
  have sal: "submit_and_log e a c n index row_data email subject body w = rate_limit a n index w3"
    unfolding w3_def w2_def using cd log_result_written [OF op]
    by (simp add: submit_and_log_def bind_def)
  have p3: "files w3 = (files w)(log_csv a \<mapsto> log_base w (log_csv a) @
          [[PStr email, PStr (get_or_empty row_data ''company''),
            PStr (get_or_empty row_data ''first_name''), PStr subject,
            get_draft_id s (PStr []), PStr (status s)]])"
    "skip_notices w3 = skip_notices w" "sleeps w3 = sleeps w"
  proof -
    have "files w2 = (files w)(log_csv a \<mapsto> log_base w (log_csv a) @
          [[PStr email, PStr (get_or_empty row_data ''company''),
            PStr (get_or_empty row_data ''first_name''), PStr subject,
            get_draft_id s (PStr []), PStr (status s)]])"
      and "skip_notices w2 = skip_notices w" and "sleeps w2 = sleeps w"
      using n1 by (simp_all add: w2_def f1 lb s1 skip_notices_def)
    then show "files w3 = (files w)(log_csv a \<mapsto> log_base w (log_csv a) @
          [[PStr email, PStr (get_or_empty row_data ''company''),
            PStr (get_or_empty row_data ''first_name''), PStr subject,
            get_draft_id s (PStr []), PStr (status s)]])"
      and "skip_notices w3 = skip_notices w" and "sleeps w3 = sleeps w"
      by (simp_all add: w3_def report_frame)
  qed
  show ?thesis
  proof (cases "0 \<le> delay_ms a \<and> delay_ms a \<le> max_sleep_ms")
    case True
    with rate_limit_accepted [of a n index w3] sal p3 show ?thesis by auto
  next
    case False
    with rate_limit_frame [of a n index w3] sal p3 show ?thesis by auto
  qed
qed

lemma submit_and_log_refused:
  assumes cd: "create_draft e c email subject body (print (CreatingDraftFor email) w) = (Inr s, w1)"
    and op: "open_append e (log_csv a) = Some x"
  shows "submit_and_log e a c n index row_data email subject body w = (Inl x, w1)"
  using cd log_result_refused [OF op] by (simp add: submit_and_log_def bind_def)

text \<open>The state in which the loop body reaches the email check.\<close>

lemma before_email_check:
  "\<exists>subject body w3.
     process_contact e a c n index row w =
       (if get_or_empty (clean row) ''email'' = []
        then (Inr (), print (NoEmailSkipping (int index + 1)) w3)
        else submit_and_log e a c n index (clean row) (get_or_empty (clean row) ''email'') subject body w3)
     \<and> files w3 = files w \<and> sleeps w3 = sleeps w \<and> draft_requests w3 = draft_requests w
     \<and> skip_notices w3 = skip_notices w"
proof -
  obtain subject w1 where r1: "render_template e SUBJECT_TEXT (clean row) w = (Inr subject, w1)"
    and p1: "files w1 = files w" "sleeps w1 = sleeps w" "http_log w1 = http_log w"
      "skip_notices w1 = skip_notices w"
    using render_template_frame [of e SUBJECT_TEXT "clean row" w] by auto
  obtain body w2 where r2: "render_template e BODY_TEXT (clean row) w1 = (Inr body, w2)"
    and p2: "files w2 = files w1" "sleeps w2 = sleeps w1" "http_log w2 = http_log w1"
      "skip_notices w2 = skip_notices w1"
    using render_template_frame [of e BODY_TEXT "clean row" w1] by auto
  obtain p w3 where r3: "personalize_with_ai e (clean row) w2 = (Inr p, w3)"
    and p3: "files w3 = files w2" "sleeps w3 = sleeps w2" "draft_requests w3 = draft_requests w2"
      "skip_notices w3 = skip_notices w2"
    using personalize_frame [of e "clean row" w2] by auto
  have d2: "draft_requests w2 = draft_requests w"
    by (simp add: draft_requests_def p1 p2)
  show ?thesis
  proof (cases "ai_personalize a")
    case True
    show ?thesis
      apply (rule exI [of _ subject])
      apply (rule exI [of _ "if p \<noteq> [] then body @ p else body"])
      apply (rule exI [of _ w3])
      using True r1 r2 r3 p1 p2 p3 d2
      by (simp add: process_contact_def bind_def Let_def)
  next
    case False
    show ?thesis
      apply (rule exI [of _ subject])
      apply (rule exI [of _ body])
      apply (rule exI [of _ w2])
      using False r1 r2 p1 p2 d2
      by (simp add: process_contact_def bind_def Let_def)
  qed
qed



lemma process_contact_refused:
  assumes "get_or_empty (clean row) ''email'' \<noteq> []"
    and "open_append e (log_csv a) = Some x"
  shows "\<exists>w'. process_contact e a c n index row w = (Inl x, w') \<and> files w' = files w"
proof -
  from before_email_check [of e a c n index row w] assms(1)
  obtain subject body w3 where pc: "process_contact e a c n index row w =
      submit_and_log e a c n index (clean row) (get_or_empty (clean row) ''email'') subject body w3"
    and p3: "files w3 = files w"
    by auto
  from create_draft_frame [of e c "get_or_empty (clean row) ''email''" subject body
      "print (CreatingDraftFor (get_or_empty (clean row) ''email'')) w3"]
  obtain s w4 where cd: "create_draft e c (get_or_empty (clean row) ''email'') subject body
      (print (CreatingDraftFor (get_or_empty (clean row) ''email'')) w3) = (Inr s, w4)"
    and f4: "files w4 = files (print (CreatingDraftFor (get_or_empty (clean row) ''email'')) w3)"
    by blast
  from submit_and_log_refused [OF cd assms(2), of n index "clean row"] pc p3 f4
  show ?thesis by simp
qed

subsection \<open>One audit row per contact with an email\<close>






subsection \<open>Three contacts, the second without an email\<close>







subsection \<open>The draft submitter\<close>

text \<open>
  C3, as the code has it. \<open>create_draft\<close> never raises to its caller. With a token held:
  when the reply has status 201 and a JSON body that is an object with an \<open>id\<close>, the
  result is a Success carrying that \<open>id\<close> (the body \<open>{"id": "AAMk-example"}\<close> gives Success
  with \<open>AAMk-example\<close>); when the reply has status 201 and a body that is not JSON, or
  is JSON but not an object, the result is a Failure carrying the description of the
  exception; when the reply has any other status, the result is a Failure carrying the
  status code and the response text; when the request raises, the result is a Failure
  carrying the description of the exception.
\<close>

theorem create_draft_classifies_response:
  "(\<exists>r w'. create_draft e c email subject body w = (Inr r, w'))
   \<and> (access_token c = Some token \<and> token \<noteq> [] \<longrightarrow>
        (\<forall>resp kvs v.
            net e (length (http_log w)) (draft_request token email subject body) = Inr resp
            \<and> status_code resp = 201 \<and> json resp = Some (PDict kvs) \<and> map_of kvs ''id'' = Some v
            \<longrightarrow> fst (create_draft e c email subject body w) = Inr (Success v))
      \<and> (\<forall>resp.
            net e (length (http_log w)) (draft_request token email subject body) = Inr resp
            \<and> status_code resp = 201 \<and> json resp = None
            \<longrightarrow> fst (create_draft e c email subject body w)
                  = Inr (Failure (ExceptionText JSONDecodeError)))
      \<and> (\<forall>resp v.
            net e (length (http_log w)) (draft_request token email subject body) = Inr resp
            \<and> status_code resp = 201 \<and> json resp = Some v \<and> \<not> is_dict v
            \<longrightarrow> fst (create_draft e c email subject body w)
                  = Inr (Failure (ExceptionText AttributeError)))
      \<and> (\<forall>resp.
            net e (length (http_log w)) (draft_request token email subject body) = Inr resp
            \<and> status_code resp \<noteq> 201
            \<longrightarrow> fst (create_draft e c email subject body w)
                  = Inr (Failure (Http (status_code resp) (response_text resp))))
      \<and> (\<forall>x.
            net e (length (http_log w)) (draft_request token email subject body) = Inl x
            \<longrightarrow> fst (create_draft e c email subject body w) = Inr (Failure (ExceptionText x))))"
proof (intro conjI impI allI)
  from create_draft_frame [of e c email subject body w]
  show "\<exists>r w'. create_draft e c email subject body w = (Inr r, w')" by blast
next
  fix resp kvs v
  assume "access_token c = Some token \<and> token \<noteq> []"
    and "net e (length (http_log w)) (draft_request token email subject body) = Inr resp
            \<and> status_code resp = 201 \<and> json resp = Some (PDict kvs) \<and> map_of kvs ''id'' = Some v"
  then show "fst (create_draft e c email subject body w) = Inr (Success v)"
    by (simp add: create_draft_def create_draft_try_def post_def)
next
  fix resp
  assume "access_token c = Some token \<and> token \<noteq> []"
    and "net e (length (http_log w)) (draft_request token email subject body) = Inr resp
            \<and> status_code resp = 201 \<and> json resp = None"
  then show "fst (create_draft e c email subject body w) = Inr (Failure (ExceptionText JSONDecodeError))"
    by (simp add: create_draft_def create_draft_try_def post_def)
next
  fix resp v
  assume "access_token c = Some token \<and> token \<noteq> []"
    and h: "net e (length (http_log w)) (draft_request token email subject body) = Inr resp
            \<and> status_code resp = 201 \<and> json resp = Some v \<and> \<not> is_dict v"
  moreover from h have "get_method v ''id'' (PStr ''unknown'') = Inl AttributeError"
    by (cases v) simp_all
  ultimately show "fst (create_draft e c email subject body w) = Inr (Failure (ExceptionText AttributeError))"
    by (simp add: create_draft_def create_draft_try_def post_def)
next
  fix resp
  assume "access_token c = Some token \<and> token \<noteq> []"
    and "net e (length (http_log w)) (draft_request token email subject body) = Inr resp
            \<and> status_code resp \<noteq> 201"
  then show "fst (create_draft e c email subject body w)
                  = Inr (Failure (Http (status_code resp) (response_text resp)))"
    by (simp add: create_draft_def create_draft_try_def post_def)
next
  fix x
  assume "access_token c = Some token \<and> token \<noteq> []"
    and "net e (length (http_log w)) (draft_request token email subject body) = Inl x"
  then show "fst (create_draft e c email subject body w) = Inr (Failure (ExceptionText x))"
    by (simp add: create_draft_def create_draft_try_def post_def)
qed

lemma example_replies:
  "net env_ok k r = Inr created" "net env_429 k r = Inr too_many"
  "net env_down k r = Inl (LibraryError ''Connection refused'')"
  "net env_no_id k r = Inr (created\<lparr>json := Some (PDict [])\<rparr>)"
  "net env_201_not_json k r = Inr created_not_json"
  "net env_201_list k r = Inr not_an_object"
  by (simp_all add: env_ok_def env_429_def env_down_def env_no_id_def env_201_not_json_def
        env_201_list_def)

lemma example_responses:
  "status_code created = 201" "json created = Some (PDict [(''id'', PStr ''AAMk-example'')])"
  "map_of [(''id'', PStr ''AAMk-example'')] ''id'' = Some (PStr ''AAMk-example'')"
  "status_code too_many \<noteq> 201" "status_code too_many = 429"
  "response_text too_many = ''Too Many Requests''"
  "status_code created_not_json = 201" "json created_not_json = None"
  "status_code not_an_object = 201" "json not_an_object = Some (PList [])" "\<not> is_dict (PList [])"
  by (simp_all add: created_def too_many_def created_not_json_def not_an_object_def)

lemma example_token: "access_token creator0 = Some ''token'' \<and> ''token'' \<noteq> []"
  by (simp add: creator0_def)

theorem create_draft_classifies_response_witness:
  "access_token creator0 = Some ''token'' \<and> ''token'' \<noteq> []
   \<and> net env_ok (length (http_log world0)) (draft_request ''token'' ''bob@example.com'' ''Hi'' ''Hello'')
       = Inr created
   \<and> status_code created = 201 \<and> json created = Some (PDict [(''id'', PStr ''AAMk-example'')])
   \<and> map_of [(''id'', PStr ''AAMk-example'')] ''id'' = Some (PStr ''AAMk-example'')
   \<and> fst (create_draft env_ok creator0 ''bob@example.com'' ''Hi'' ''Hello'' world0)
       = Inr (Success (PStr ''AAMk-example''))
   \<and> net env_201_not_json (length (http_log world0))
         (draft_request ''token'' ''bob@example.com'' ''Hi'' ''Hello'') = Inr created_not_json
   \<and> status_code created_not_json = 201 \<and> json created_not_json = None
   \<and> fst (create_draft env_201_not_json creator0 ''bob@example.com'' ''Hi'' ''Hello'' world0)
       = Inr (Failure (ExceptionText JSONDecodeError))
   \<and> net env_201_list (length (http_log world0))
         (draft_request ''token'' ''bob@example.com'' ''Hi'' ''Hello'') = Inr not_an_object
   \<and> status_code not_an_object = 201 \<and> json not_an_object = Some (PList []) \<and> \<not> is_dict (PList [])
   \<and> fst (create_draft env_201_list creator0 ''bob@example.com'' ''Hi'' ''Hello'' world0)
       = Inr (Failure (ExceptionText AttributeError))
   \<and> net env_429 (length (http_log world0)) (draft_request ''token'' ''bob@example.com'' ''Hi'' ''Hello'')
       = Inr too_many
   \<and> status_code too_many \<noteq> 201
   \<and> fst (create_draft env_429 creator0 ''bob@example.com'' ''Hi'' ''Hello'' world0)
       = Inr (Failure (Http 429 ''Too Many Requests''))
   \<and> net env_down (length (http_log world0)) (draft_request ''token'' ''bob@example.com'' ''Hi'' ''Hello'')
       = Inl (LibraryError ''Connection refused'')
   \<and> fst (create_draft env_down creator0 ''bob@example.com'' ''Hi'' ''Hello'' world0)
       = Inr (Failure (ExceptionText (LibraryError ''Connection refused'')))"
proof -
  note t = example_token
  note c = example_responses
  note th = create_draft_classifies_response [where c = creator0 and email = "''bob@example.com''"
      and subject = "''Hi''" and body = "''Hello''" and w = world0 and token = "''token''"]
  from t c example_replies(1) th [where e = env_ok]
  have a1: "fst (create_draft env_ok creator0 ''bob@example.com'' ''Hi'' ''Hello'' world0)
       = Inr (Success (PStr ''AAMk-example''))"
    by blast
  from t c example_replies(5) th [where e = env_201_not_json]
  have a2: "fst (create_draft env_201_not_json creator0 ''bob@example.com'' ''Hi'' ''Hello'' world0)
       = Inr (Failure (ExceptionText JSONDecodeError))"
    by blast
  from t c example_replies(6) th [where e = env_201_list]
  have a3: "fst (create_draft env_201_list creator0 ''bob@example.com'' ''Hi'' ''Hello'' world0)
       = Inr (Failure (ExceptionText AttributeError))"
    by blast
  from t c example_replies(2) th [where e = env_429]
  have a4: "fst (create_draft env_429 creator0 ''bob@example.com'' ''Hi'' ''Hello'' world0)
       = Inr (Failure (Http 429 ''Too Many Requests''))"
    by metis
  from t c example_replies(3) th [where e = env_down]
  have a5: "fst (create_draft env_down creator0 ''bob@example.com'' ''Hi'' ''Hello'' world0)
       = Inr (Failure (ExceptionText (LibraryError ''Connection refused'')))"
    by blast
  from a1 a2 a3 a4 a5 t c example_replies show ?thesis by simp
qed

text \<open>
  C3 as stated has a Success for every reply with status 201. A reply with status 201
  whose body is not JSON gives a Failure.
\<close>

theorem created_with_unreadable_body_is_a_failure:
  "net env_201_not_json (length (http_log world0))
       (draft_request ''token'' ''bob@example.com'' ''Hi'' ''Hello'') = Inr created_not_json
   \<and> status_code created_not_json = 201
   \<and> fst (create_draft env_201_not_json creator0 ''bob@example.com'' ''Hi'' ''Hello'' world0)
       = Inr (Failure (ExceptionText JSONDecodeError))"
  by (simp add: create_draft_def create_draft_try_def post_def creator0_def example_replies
        example_responses)

text \<open>
  C6. When the held access token is absent (\<open>None\<close> or the empty string),
  \<open>create_draft\<close> returns the Failure \<open>No access token\<close> at once, for every email,
  subject and body: the world is returned as it was, so no request has been issued.
\<close>

theorem create_draft_without_token:
  "access_token c = None \<or> access_token c = Some [] \<Longrightarrow>
     create_draft e c email subject body w = (Inr (Failure NoAccessToken), w)
     \<and> http_log (snd (create_draft e c email subject body w)) = http_log w"
  by (auto simp: create_draft_def)

theorem create_draft_without_token_witness:
  "(access_token (creator0\<lparr>access_token := None\<rparr>) = None
      \<or> access_token (creator0\<lparr>access_token := None\<rparr>) = Some [])
   \<and> create_draft env_ok (creator0\<lparr>access_token := None\<rparr>) ''bob@example.com'' ''Hi'' ''Hello'' world0
       = (Inr (Failure NoAccessToken), world0)
   \<and> http_log (snd (create_draft env_ok (creator0\<lparr>access_token := None\<rparr>)
         ''bob@example.com'' ''Hi'' ''Hello'' world0)) = http_log world0"
proof -
  have h: "access_token (creator0\<lparr>access_token := None\<rparr>) = None
      \<or> access_token (creator0\<lparr>access_token := None\<rparr>) = Some []"
    by simp
  from h create_draft_without_token [OF h, of env_ok "''bob@example.com''" "''Hi''" "''Hello''" world0]
  show ?thesis by blast
qed


lemma submit_and_log_of_result:
  assumes cd: "create_draft e c email subject body (print (CreatingDraftFor email) w) = (Inr s, w1)"
  shows "\<exists>x w'. submit_and_log e a c n index row_data email subject body w = (x, w')
     \<and> files w' =
         (case open_append e (log_csv a) of
            Some err \<Rightarrow> files w
          | None \<Rightarrow> (files w)(log_csv a \<mapsto> log_base w (log_csv a) @
              [[PStr email, PStr (get_or_empty row_data ''company''),
                PStr (get_or_empty row_data ''first_name''), PStr subject,
                get_draft_id s (PStr []), PStr (status s)]]))"
proof (cases "open_append e (log_csv a)")
  case None
  from submit_and_log_written [OF cd None, of n index row_data] None
  show ?thesis by auto
next
  case (Some err)
  from create_draft_frame [of e c email subject body "print (CreatingDraftFor email) w"] cd
  have "files w1 = files w" by auto
  with submit_and_log_refused [OF cd Some, of n index row_data] Some
  show ?thesis by simp
qed

text \<open>
  C10. When the draft request is answered with status 201 and a JSON object that has no
  \<open>id\<close> key, \<open>create_draft\<close> returns a Success whose draft identifier is the string
  \<open>unknown\<close>. When \<open>create_draft\<close> returns a Failure, the AuditRow that \<open>main\<close> writes
  for the contact has the empty string as its \<open>draft_id\<close> and \<open>error\<close> as its status;
  the only other outcome is that the log cannot be opened and no row is written at all.
\<close>

theorem missing_id_and_failed_draft_id:
  "(access_token c = Some token \<and> token \<noteq> []
      \<and> net e (length (http_log w)) (draft_request token email subject body) = Inr resp
      \<and> status_code resp = 201 \<and> json resp = Some (PDict kvs) \<and> map_of kvs ''id'' = None
      \<longrightarrow> fst (create_draft e c email subject body w) = Inr (Success (PStr ''unknown'')))
   \<and> (create_draft e c email subject body (print (CreatingDraftFor email) w) = (Inr (Failure d), w1)
      \<longrightarrow> (\<exists>x w'. submit_and_log e a c n index row_data email subject body w = (x, w')
            \<and> files w' =
                (case open_append e (log_csv a) of
                   Some err \<Rightarrow> files w
                 | None \<Rightarrow> (files w)(log_csv a \<mapsto> log_base w (log_csv a) @
                     [[PStr email, PStr (get_or_empty row_data ''company''),
                  PStr (get_or_empty row_data ''first_name''), PStr subject, PStr [], PStr ''error'']]))))"
proof (intro conjI impI)
  assume "access_token c = Some token \<and> token \<noteq> []
      \<and> net e (length (http_log w)) (draft_request token email subject body) = Inr resp
      \<and> status_code resp = 201 \<and> json resp = Some (PDict kvs) \<and> map_of kvs ''id'' = None"
  then show "fst (create_draft e c email subject body w) = Inr (Success (PStr ''unknown''))"
    by (simp add: create_draft_def create_draft_try_def post_def)
next
  assume "create_draft e c email subject body (print (CreatingDraftFor email) w) = (Inr (Failure d), w1)"
  from submit_and_log_of_result [OF this, of a n index row_data]
  show "\<exists>x w'. submit_and_log e a c n index row_data email subject body w = (x, w')
            \<and> files w' =
                (case open_append e (log_csv a) of
                   Some err \<Rightarrow> files w
                 | None \<Rightarrow> (files w)(log_csv a \<mapsto> log_base w (log_csv a) @
                     [[PStr email, PStr (get_or_empty row_data ''company''),
                  PStr (get_or_empty row_data ''first_name''), PStr subject, PStr [], PStr ''error'']]))"
    by (cases "open_append e (log_csv a)") simp_all
qed


theorem missing_id_and_failed_draft_id_witness:
  "access_token creator0 = Some ''token'' \<and> ''token'' \<noteq> []
   \<and> net env_no_id (length (http_log world0)) (draft_request ''token'' ''bob@example.com'' ''Hi'' ''Hello'')
        = Inr (created\<lparr>json := Some (PDict [])\<rparr>)
   \<and> status_code (created\<lparr>json := Some (PDict [])\<rparr>) = 201
   \<and> json (created\<lparr>json := Some (PDict [])\<rparr>) = Some (PDict [])
   \<and> map_of ([] :: (string \<times> pyval) list) ''id'' = None
   \<and> fst (create_draft env_no_id creator0 ''bob@example.com'' ''Hi'' ''Hello'' world0)
        = Inr (Success (PStr ''unknown''))
   \<and> fst (create_draft env_429 creator0 ''bob@example.com'' ''Hi'' ''Hello''
        (print (CreatingDraftFor ''bob@example.com'') world0))
        = Inr (Failure (Http 429 ''Too Many Requests''))
   \<and> open_append env_429 (log_csv args0) = None
   \<and> (\<exists>x w'. submit_and_log env_429 args0 creator0 3 0 (clean row_bob) ''bob@example.com'' ''Hi'' ''Hello'' world0
                = (x, w')
         \<and> files w' = (files world0)(log_csv args0 \<mapsto> log_base world0 (log_csv args0) @
              [[PStr ''bob@example.com'', PStr (get_or_empty (clean row_bob) ''company''),
                PStr (get_or_empty (clean row_bob) ''first_name''), PStr ''Hi'', PStr [],
                PStr ''error'']]))"
proof -
  note t = example_token
  have r: "status_code (created\<lparr>json := Some (PDict [])\<rparr>) = 201"
    "json (created\<lparr>json := Some (PDict [])\<rparr>) = Some (PDict [])"
    "map_of ([] :: (string \<times> pyval) list) ''id'' = None"
    by (simp_all add: created_def)
  have op: "open_append env_429 (log_csv args0) = None"
    by (simp add: open_append_def env_429_def env_ok_def args0_def)
  obtain w1 where f: "create_draft env_429 creator0 ''bob@example.com'' ''Hi'' ''Hello''
        (print (CreatingDraftFor ''bob@example.com'') world0)
        = (Inr (Failure (Http 429 ''Too Many Requests'')), w1)"
    by (simp add: create_draft_def create_draft_try_def post_def creator0_def example_replies
          too_many_def)
  from t r example_replies(4)
    missing_id_and_failed_draft_id [where c = creator0 and token = "''token''" and e = env_no_id
      and w = world0 and email = "''bob@example.com''" and subject = "''Hi''" and body = "''Hello''"
      and resp = "created\<lparr>json := Some (PDict [])\<rparr>" and kvs = "[]"]
  have a1: "fst (create_draft env_no_id creator0 ''bob@example.com'' ''Hi'' ''Hello'' world0)
        = Inr (Success (PStr ''unknown''))"
    by blast
  from f missing_id_and_failed_draft_id [where c = creator0 and e = env_429
      and w = world0 and email = "''bob@example.com''" and subject = "''Hi''" and body = "''Hello''"
      and d = "Http 429 ''Too Many Requests''" and ?w1.0 = w1 and a = args0 and n = 3 and index = 0
      and row_data = "clean row_bob"]
  have "\<exists>x w'. submit_and_log env_429 args0 creator0 3 0 (clean row_bob) ''bob@example.com'' ''Hi'' ''Hello'' world0
                = (x, w')
         \<and> files w' =
             (case open_append env_429 (log_csv args0) of
                Some err \<Rightarrow> files world0
              | None \<Rightarrow> (files world0)(log_csv args0 \<mapsto> log_base world0 (log_csv args0) @
              [[PStr ''bob@example.com'', PStr (get_or_empty (clean row_bob) ''company''),
                PStr (get_or_empty (clean row_bob) ''first_name''), PStr ''Hi'', PStr [],
                PStr ''error'']]))"
    by blast
  then have a2: "\<exists>x w'. submit_and_log env_429 args0 creator0 3 0 (clean row_bob) ''bob@example.com'' ''Hi'' ''Hello'' world0
                = (x, w')
         \<and> files w' = (files world0)(log_csv args0 \<mapsto> log_base world0 (log_csv args0) @
              [[PStr ''bob@example.com'', PStr (get_or_empty (clean row_bob) ''company''),
                PStr (get_or_empty (clean row_bob) ''first_name''), PStr ''Hi'', PStr [],
                PStr ''error'']])"
    by (simp add: op)
  from f have a3: "fst (create_draft env_429 creator0 ''bob@example.com'' ''Hi'' ''Hello''
        (print (CreatingDraftFor ''bob@example.com'') world0))
        = Inr (Failure (Http 429 ''Too Many Requests''))"
    by simp
  from t r example_replies(4) a1 a2 a3 op show ?thesis by simp
qed

subsection \<open>Rendering and personalization\<close>



text \<open>
  C7. When \<open>OPENAI_API_KEY\<close> is not set (or is empty), \<open>personalize_with_ai\<close> returns
  the empty string for every record and returns the world as it was: it has issued no
  request. The result is a function of the arguments, so it is the same on every call.
\<close>

theorem personalize_without_key:
  "openai_api_key e = None \<or> openai_api_key e = Some [] \<Longrightarrow>
     personalize_with_ai e row_data w = (Inr [], w)
     \<and> http_log (snd (personalize_with_ai e row_data w)) = http_log w"
  by (auto simp: personalize_with_ai_def)

theorem personalize_without_key_witness:
  "(openai_api_key env_ok = None \<or> openai_api_key env_ok = Some [])
   \<and> personalize_with_ai env_ok (clean row_bob) world0 = (Inr [], world0)
   \<and> http_log (snd (personalize_with_ai env_ok (clean row_bob) world0)) = http_log world0"
proof -
  have h: "openai_api_key env_ok = None \<or> openai_api_key env_ok = Some []"
    by (simp add: env_ok_def)
  from h personalize_without_key [OF h, of "clean row_bob" world0]
  show ?thesis by blast
qed


text \<open>
  What \<open>personalize_with_ai\<close> does with each kind of reply. It never raises to its
  caller, and it returns the empty string on every error. An exception (a timeout, a body
  that is not JSON, a JSON of the wrong shape) is printed; a status other than 200 is
  not.
\<close>

lemma personalize_with_ai_replies:
  "(\<exists>s w'. personalize_with_ai e row_data w = (Inr s, w'))
   \<and> (openai_api_key e = Some key \<and> key \<noteq> [] \<longrightarrow>
        (\<forall>x. net e (length (http_log w)) (chat_request key (prompt row_data)) = Inl x
           \<longrightarrow> fst (personalize_with_ai e row_data w) = Inr []
             \<and> console (snd (personalize_with_ai e row_data w))
                 = console w @ [AIPersonalizationFailed x])
      \<and> (\<forall>resp. net e (length (http_log w)) (chat_request key (prompt row_data)) = Inr resp
             \<and> status_code resp = 200 \<and> json resp = None
           \<longrightarrow> fst (personalize_with_ai e row_data w) = Inr []
             \<and> console (snd (personalize_with_ai e row_data w))
                 = console w @ [AIPersonalizationFailed JSONDecodeError])
      \<and> (\<forall>resp v x. net e (length (http_log w)) (chat_request key (prompt row_data)) = Inr resp
             \<and> status_code resp = 200 \<and> json resp = Some v \<and> completion_text v = Inl x
           \<longrightarrow> fst (personalize_with_ai e row_data w) = Inr []
             \<and> console (snd (personalize_with_ai e row_data w))
                 = console w @ [AIPersonalizationFailed x])
      \<and> (\<forall>resp. net e (length (http_log w)) (chat_request key (prompt row_data)) = Inr resp
             \<and> status_code resp \<noteq> 200
           \<longrightarrow> fst (personalize_with_ai e row_data w) = Inr []
             \<and> console (snd (personalize_with_ai e row_data w)) = console w))"
proof (intro conjI impI allI)
  from personalize_frame [of e row_data w]
  show "\<exists>s w'. personalize_with_ai e row_data w = (Inr s, w')" by blast
qed (simp_all add: personalize_with_ai_def personalize_try_def post_def)



lemma example_ai_replies:
  "openai_api_key env_ai_500 = Some ''sk-test''" "net env_ai_500 k r = Inr server_error"
  "openai_api_key env_ai_timeout = Some ''sk-test''"
  "net env_ai_timeout k r = Inl (LibraryError ''Read timed out'')"
  "openai_api_key env_ai_not_json = Some ''sk-test''" "net env_ai_not_json k r = Inr not_json"
  "openai_api_key env_ai_no_choices = Some ''sk-test''" "net env_ai_no_choices k r = Inr no_choices"
  "openai_api_key (env_ai t) = Some ''sk-test''" "net (env_ai t) k r = Inr (completion t)"
  by (simp_all add: env_ai_500_def env_ai_timeout_def env_ai_not_json_def env_ai_no_choices_def
        env_ai_def env_ok_def)

lemma example_ai_responses:
  "status_code server_error = 500" "status_code not_json = 200" "json not_json = None"
  "status_code no_choices = 200" "json no_choices = Some (PDict [])"
  "completion_text (PDict []) = Inl (KeyError ''choices'')"
  by (simp_all add: server_error_def not_json_def no_choices_def completion_text_def)


text \<open>
  C4. Every error during augmentation is to be logged: a timeout, a non-2xx status, a
  malformed body. The code misses the status. With a key configured and a reply of status
  500, \<open>personalize_with_ai\<close> returns the empty string and the console stays empty; with
  a request that times out, it returns the empty string and the console has the error.
\<close>

theorem personalize_does_not_log_http_500:
  "openai_api_key env_ai_500 = Some ''sk-test''
   \<and> net env_ai_500 (length (http_log world0)) (chat_request ''sk-test'' (prompt (clean row_bob)))
        = Inr server_error
   \<and> status_code server_error = 500
   \<and> fst (personalize_with_ai env_ai_500 (clean row_bob) world0) = Inr []
   \<and> console (snd (personalize_with_ai env_ai_500 (clean row_bob) world0)) = []
   \<and> net env_ai_timeout (length (http_log world0)) (chat_request ''sk-test'' (prompt (clean row_bob)))
        = Inl (LibraryError ''Read timed out'')
   \<and> fst (personalize_with_ai env_ai_timeout (clean row_bob) world0) = Inr []
   \<and> console (snd (personalize_with_ai env_ai_timeout (clean row_bob) world0))
        = [AIPersonalizationFailed (LibraryError ''Read timed out'')]"
  by (simp add: personalize_with_ai_def personalize_try_def post_def example_ai_replies
        example_ai_responses world0_def)

subsection \<open>A completion, and a cached session\<close>

lemma drop_trailing_split:
  "rev (dropWhile P (rev u)) @ rev (takeWhile P (rev u)) = u"
proof -
  have "rev (takeWhile P (rev u) @ dropWhile P (rev u)) = rev (rev u)"
    by (simp only: takeWhile_dropWhile_id)
  then show ?thesis
    by (simp only: rev_append rev_rev_ident)
qed

lemma strip_inside:
  "s = takeWhile isspace s @ strip s @ rev (takeWhile isspace (rev (dropWhile isspace s)))"
proof -
  have "dropWhile isspace s = strip s @ rev (takeWhile isspace (rev (dropWhile isspace s)))"
    unfolding strip_def by (rule drop_trailing_split [symmetric])
  moreover have "s = takeWhile isspace s @ dropWhile isspace s"
    by simp
  ultimately show ?thesis by metis
qed

lemma strip_no_leading: "dropWhile isspace (strip s) = strip s"
proof (cases "strip s")
  case Nil
  then show ?thesis by simp
next
  case (Cons c cs)
  have u: "dropWhile isspace s = strip s @ rev (takeWhile isspace (rev (dropWhile isspace s)))"
    unfolding strip_def by (rule drop_trailing_split [symmetric])
  with Cons have "dropWhile isspace s \<noteq> []" and "hd (dropWhile isspace s) = c"
    by (metis append_is_Nil_conv list.distinct(1), metis hd_append2 list.distinct(1) list.sel(1))
  then have "\<not> isspace c"
    using hd_dropWhile [of isspace s] by auto
  with Cons show ?thesis by simp
qed

lemma strip_no_trailing: "dropWhile isspace (rev (strip s)) = rev (strip s)"
  by (simp add: strip_def)

lemma length_shorten: "length (shorten t) \<le> 200"
  by (simp add: shorten_def)

lemma completion_text_well_formed:
  assumes "map_of kvs ''choices'' = Some (PList (PDict choice # rest))"
    and "map_of choice ''message'' = Some (PDict message)"
    and "map_of message ''content'' = Some (PStr content)"
  shows "completion_text (PDict kvs) = Inr (strip content)"
  using assms by (simp add: completion_text_def)

text \<open>
  C8. On a reply with status 200 whose JSON has a completion text at
  \<open>choices[0].message.content\<close>, \<open>personalize_with_ai\<close> returns two newlines followed
  by the completion with the whitespace at both ends removed; a trimmed completion longer
  than 200 characters is cut to its first 197 characters followed by the three dots of
  an ellipsis, so the part after the newlines never exceeds 200 characters. The trimmed
  completion is the completion without a prefix and a suffix of whitespace, and it
  neither starts nor ends with whitespace.
\<close>

theorem personalize_with_ai_success:
  assumes "openai_api_key e = Some key" and "key \<noteq> []"
    and "net e (length (http_log w)) (chat_request key (prompt row_data)) = Inr resp"
    and "status_code resp = 200"
    and "json resp = Some (PDict kvs)"
    and "map_of kvs ''choices'' = Some (PList (PDict choice # rest))"
    and "map_of choice ''message'' = Some (PDict message)"
    and "map_of message ''content'' = Some (PStr content)"
  shows "fst (personalize_with_ai e row_data w)
           = Inr ([nl, nl] @ (if length (strip content) > 200
                              then take 197 (strip content) @ ''...''
                              else strip content))
     \<and> length (if length (strip content) > 200
                then take 197 (strip content) @ ''...''
                else strip content) \<le> 200
     \<and> content = takeWhile isspace content @ strip content
                   @ rev (takeWhile isspace (rev (dropWhile isspace content)))
     \<and> dropWhile isspace (strip content) = strip content
     \<and> dropWhile isspace (rev (strip content)) = rev (strip content)"
proof -
  from assms(6-8) have "completion_text (PDict kvs) = Inr (strip content)"
    by (rule completion_text_well_formed)
  with assms(1-5) have "fst (personalize_with_ai e row_data w) = Inr ([nl, nl] @ shorten (strip content))"
    by (simp add: personalize_with_ai_def personalize_try_def post_def)
  then have "fst (personalize_with_ai e row_data w)
           = Inr ([nl, nl] @ (if length (strip content) > 200
                              then take 197 (strip content) @ ''...''
                              else strip content))"
    by (simp add: shorten_def)
  moreover from length_shorten [of "strip content"]
  have "length (if length (strip content) > 200
                then take 197 (strip content) @ ''...''
                else strip content) \<le> 200"
    by (simp add: shorten_def)
  ultimately show ?thesis
    using strip_inside [of content] strip_no_leading [of content] strip_no_trailing [of content]
    by blast
qed


lemma strip_hello: "strip ''  Hello there  '' = ''Hello there''"
  by (simp add: strip_def isspace_def)

lemma strip_long: "strip (replicate 250 (CHR ''a'')) = replicate 250 (CHR ''a'')"
  by (simp add: strip_def isspace_def)

theorem personalize_with_ai_success_witness:
  "fst (personalize_with_ai (env_ai ''  Hello there  '') (clean row_bob) world0)
       = Inr ([nl, nl] @ ''Hello there'')
   \<and> fst (personalize_with_ai (env_ai (replicate 250 (CHR ''a''))) (clean row_bob) world0)
       = Inr ([nl, nl] @ replicate 197 (CHR ''a'') @ ''...'')"
proof -
  have k: "''sk-test'' \<noteq> []" by simp
  have r: "status_code (completion c) = 200"
    "json (completion c) = Some (PDict [(''choices'',
        PList [PDict [(''message'', PDict [(''role'', PStr ''assistant''), (''content'', PStr c)])]])])"
    for c
    by (simp_all add: completion_def)
  have m: "map_of [(''choices'',
        PList [PDict [(''message'', PDict [(''role'', PStr ''assistant''), (''content'', PStr c)])]])] ''choices''
      = Some (PList (PDict [(''message'', PDict [(''role'', PStr ''assistant''), (''content'', PStr c)])] # []))"
    "map_of [(''message'', PDict [(''role'', PStr ''assistant''), (''content'', PStr c)])] ''message''
      = Some (PDict [(''role'', PStr ''assistant''), (''content'', PStr c)])"
    "map_of [(''role'', PStr ''assistant''), (''content'', PStr c)] ''content'' = Some (PStr c)"
    for c
    by simp_all
  note short = personalize_with_ai_success [where e = "env_ai ''  Hello there  ''" and w = world0
      and row_data = "clean row_bob" and content = "''  Hello there  ''",
      OF example_ai_replies(9) k example_ai_replies(10) r m]
  note long = personalize_with_ai_success [where e = "env_ai (replicate 250 (CHR ''a''))" and w = world0
      and row_data = "clean row_bob" and content = "replicate 250 (CHR ''a'')",
      OF example_ai_replies(9) k example_ai_replies(10) r m]
  from short have "fst (personalize_with_ai (env_ai ''  Hello there  '') (clean row_bob) world0)
       = Inr ([nl, nl] @ ''Hello there'')"
    by (simp add: strip_hello)
  moreover from long
  have "fst (personalize_with_ai (env_ai (replicate 250 (CHR ''a''))) (clean row_bob) world0)
       = Inr ([nl, nl] @ replicate 197 (CHR ''a'') @ ''...'')"
    by (simp add: strip_long)
  ultimately show ?thesis by blast
qed



end
